theory Spec2Isabelle
  imports Main "HOL-Library.Word" "HOL-Library.Signed_Division" "HOL-Library.AList"
begin

unbundle bit_operations_syntax

section \<open>Syntax trees\<close>

text \<open>
  Modelled from the spec: the package \<open>ast\<close> is not among the sources; the node types
  below are the variants of the spec's data model, with the fields that the parser
  writes and the evaluator reads (\<open>Value\<close>, \<open>Operator\<close>, \<open>Left\<close>, \<open>Right\<close>,
  \<open>Condition\<close>, \<open>Consequence\<close>, \<open>Alternative\<close>, \<open>Parameters\<close>, \<open>Body\<close>,
  \<open>Function\<close>, \<open>Arguments\<close>, \<open>Elements\<close>, \<open>Index\<close>, \<open>Pairs\<close>, \<open>Name\<close>,
  \<open>ReturnValue\<close>, \<open>Expression\<close>, \<open>Statements\<close>).

  \<^item> An \<open>*ast.Identifier\<close> is its \<open>Value\<close>, a string.
  \<^item> The \<open>Token\<close> that every node keeps for rendering is left out: no branch of the
    parser or of the evaluator reads it back from a node.
  \<^item> \<open>NilExpression\<close> is the nil \<open>ast.Expression\<close> that a failed parselet returns.
  \<^item> \<open>NilLetStatement\<close> is the nil \<open>*ast.LetStatement\<close> that \<open>parseLetStatement\<close>
    returns on failure; wrapped in the interface \<open>ast.Statement\<close> it is not equal
    to nil.
  \<^item> \<open>Pairs\<close> of a hash literal is a Go map from expression nodes to expression
    nodes. It is a list here, in the order in which \<open>range\<close> visits the entries
    (Go leaves that order open).
  \<^item> A nil slice and an empty slice are both the empty list: the code only ranges
    over the slices and takes their length.
\<close>

datatype Expression =
    NilExpression
  | Identifier string
  | IntegerLiteral "64 word"
  | Boolean_ast bool
  | PrefixExpression string Expression
  | InfixExpression string Expression Expression
  | IfExpression Expression BlockStatement "BlockStatement option"
  | FunctionLiteral "string list" BlockStatement
  | CallExpression Expression "Expression list"
  | StringLiteral string
  | ArrayLiteral "Expression list"
  | IndexExpression Expression Expression
  | AssignmentExpression string Expression
  | HashLiteral "(Expression \<times> Expression) list"
and Statement =
    LetStatement string Expression
  | NilLetStatement
  | ReturnStatement Expression
  | ExpressionStatement Expression
and BlockStatement =
    BlockStatement "Statement list"

text \<open>The interface \<open>ast.Node\<close> that \<open>Eval\<close> switches on.\<close>

datatype Node =
    Program "Statement list"
  | Block BlockStatement
  | Stmt Statement
  | Expr Expression


section \<open>Values (object.go)\<close>

type_synonym ObjectType = string

definition INTEGER_OBJ :: ObjectType where "INTEGER_OBJ = ''INTEGER''"
definition BOOLEAN_OBJ :: ObjectType where "BOOLEAN_OBJ = ''BOOLEAN''"
definition NULL_OBJ :: ObjectType where "NULL_OBJ = ''NULL''"
definition RETURN_VALUE_OBJ :: ObjectType where "RETURN_VALUE_OBJ = ''RETURN_VALUE''"
definition ERROR_OBJ :: ObjectType where "ERROR_OBJ = ''ERROR''"
definition FUNCTION_OBJ :: ObjectType where "FUNCTION_OBJ = ''FUNCTION''"
definition STRING_OBJ :: ObjectType where "STRING_OBJ = ''STRING''"
definition BUILTIN_OBJ :: ObjectType where "BUILTIN_OBJ = ''BUILTIN''"
definition ARRAY_OBJ :: ObjectType where "ARRAY_OBJ = ''ARRAY''"
definition HASH_OBJ :: ObjectType where "HASH_OBJ = ''HASH''"

datatype HashKey = HashKey ObjectType "64 word"

text \<open>
  An \<open>*Environment\<close> is a struct of a store (a Go map, shared and mutated in place)
  and the pointer \<open>outer\<close>, which is nil for the outermost scope.
  \<open>outer\<close> is assigned once, in \<open>NewEnclosedEnvironment\<close>, so the chain of an
  environment is fixed when it is created: the chain is the datatype below, and each
  store is an address into the heap of stores of the interpreter state.
\<close>

type_synonym address = nat

datatype Environment = Environment (store: address) (outer: "Environment option")

text \<open>
  The interface \<open>object.Object\<close>. \<open>nil\<close> is the nil interface value, which \<open>Eval\<close>
  returns for a let statement and which may then be stored like any other value.

  The evaluator compares objects by pointer (\<open>left == right\<close>). The objects whose
  pointer can reach such a comparison more than once carry the address of their
  allocation: return values, functions, arrays and hashes. \<open>TRUE\<close>, \<open>FALSE\<close> and
  \<open>NULL\<close> are the only objects of their types, and a built-in is the one pointer
  stored under its name in the table \<open>builtins\<close>. Integers and strings are compared
  by value before any pointer comparison is reached, and an error never reaches one.

  \<open>Pairs\<close> of a hash is a Go map from \<open>HashKey\<close> to \<open>HashPair\<close>: here an
  association list with distinct keys, read with \<open>map_of\<close>.
\<close>

datatype Object =
    nil
  | Integer "64 word"
  | Boolean bool
  | Null
  | ReturnValue address Object
  | Error string
  | Function address "string list" BlockStatement Environment
  | String string
  | Builtin string
  | Array address "Object list"
  | Hash address "(HashKey \<times> Object \<times> Object) list"

definition NULL :: Object where "NULL = Null"
definition TRUE :: Object where "TRUE = Boolean True"
definition FALSE :: Object where "FALSE = Boolean False"

text \<open>The method \<open>Type()\<close>; calling it on the nil interface panics (\<open>None\<close>).\<close>

fun Type :: "Object \<Rightarrow> ObjectType option" where
  "Type nil = None"
| "Type (Integer _) = Some INTEGER_OBJ"
| "Type (Boolean _) = Some BOOLEAN_OBJ"
| "Type Null = Some NULL_OBJ"
| "Type (ReturnValue _ _) = Some RETURN_VALUE_OBJ"
| "Type (Error _) = Some ERROR_OBJ"
| "Type (Function _ _ _ _) = Some FUNCTION_OBJ"
| "Type (String _) = Some STRING_OBJ"
| "Type (Builtin _) = Some BUILTIN_OBJ"
| "Type (Array _ _) = Some ARRAY_OBJ"
| "Type (Hash _ _) = Some HASH_OBJ"


subsection \<open>Hash keys\<close>

text \<open>
  \<open>hash/fnv\<close> of Go's standard library. \<open>fnv.New64()\<close> is the 64-bit FNV-1 hash:
  it starts from \<open>offset64\<close> and \<open>Write\<close> multiplies by \<open>prime64\<close> and then xors
  the byte in; \<open>Sum64\<close> returns the state.
\<close>

definition offset64 :: "64 word" where "offset64 = 14695981039346656037"
definition prime64 :: "64 word" where "prime64 = 1099511628211"

fun sum64_Write :: "64 word \<Rightarrow> string \<Rightarrow> 64 word" where
  "sum64_Write hash [] = hash"
| "sum64_Write hash (c # data) = sum64_Write ((hash * prime64) XOR of_char c) data"

definition fnv_New64_Sum64 :: "string \<Rightarrow> 64 word" where
  "fnv_New64_Sum64 data = sum64_Write offset64 data"

text \<open>
  The digest that the specification names: 64-bit FNV-1a (\<open>fnv.New64a()\<close> in Go),
  which xors the byte in first and multiplies afterwards.
\<close>

fun sum64a_Write :: "64 word \<Rightarrow> string \<Rightarrow> 64 word" where
  "sum64a_Write hash [] = hash"
| "sum64a_Write hash (c # data) = sum64a_Write ((hash XOR of_char c) * prime64) data"

definition spec_fnv1a_64 :: "string \<Rightarrow> 64 word" where
  "spec_fnv1a_64 data = sum64a_Write offset64 data"

text \<open>
  The three \<open>HashKey()\<close> methods. An \<open>Integer\<close> holds an \<open>int64\<close>, here the 64-bit
  word of its two's complement, so that \<open>uint64(i.Value)\<close> is the same word.
\<close>

definition Integer_HashKey :: "64 word \<Rightarrow> HashKey" where
  "Integer_HashKey i = HashKey INTEGER_OBJ i"

definition Boolean_HashKey :: "bool \<Rightarrow> HashKey" where
  "Boolean_HashKey b = (let v = (if b then 1 else 0) in HashKey BOOLEAN_OBJ v)"

definition String_HashKey :: "string \<Rightarrow> HashKey" where
  "String_HashKey s = HashKey STRING_OBJ (fnv_New64_Sum64 s)"

text \<open>
  The type assertion \<open>obj.(object.Hashable)\<close> followed by \<open>HashKey()\<close>: \<open>None\<close> when
  the object (or nil) does not implement \<open>Hashable\<close>.
\<close>

fun Hashable :: "Object \<Rightarrow> HashKey option" where
  "Hashable (Integer i) = Some (Integer_HashKey i)"
| "Hashable (Boolean b) = Some (Boolean_HashKey b)"
| "Hashable (String s) = Some (String_HashKey s)"
| "Hashable _ = None"


section \<open>Outcomes\<close>

text \<open>
  A call of the interpreter returns, or panics (a nil dereference, a failed type
  assertion, an index out of range, an integer division by zero), or needs more
  fuel than it was given. Fuel bounds the depth of the nested calls of \<open>Eval\<close>
  (and, in the parser, of \<open>parseExpression\<close> and the iterations of its loops): a
  computation that does not terminate runs out of every amount of fuel.
\<close>

datatype 'a Outcome = Return 'a | Panic | OutOfFuel

fun bind :: "'a Outcome \<Rightarrow> ('a \<Rightarrow> 'b Outcome) \<Rightarrow> 'b Outcome" where
  "bind (Return x) f = f x"
| "bind Panic f = Panic"
| "bind OutOfFuel f = OutOfFuel"

text \<open>The call \<open>obj.Type()\<close> as a step of a computation.\<close>

definition Type_of :: "Object \<Rightarrow> ObjectType Outcome" where
  "Type_of obj = (case Type obj of None \<Rightarrow> Panic | Some t \<Rightarrow> Return t)"

section \<open>fmt.Sprintf\<close>

text \<open>
  \<open>fmt.Sprintf\<close> of Go's standard library, for the formats of this repository: the
  verb \<open>%s\<close> with a string operand (an \<open>ObjectType\<close> is a string) and the verb
  \<open>%d\<close> with the length of a slice. Every other character is copied.
  \<open>evalIdentifier\<close> builds its format from an identifier; a \<open>%\<close> in that name
  would meet no operand, and what Go prints then is not modelled (the model copies
  the text): the statements below about that message assume a name without \<open>%\<close>,
  as the lexer's identifiers are (letters and underscores).
\<close>

datatype Operand = Str string | Num nat

fun digits :: "nat \<Rightarrow> string" where
  "digits n = (if n < 10 then [''0123456789'' ! n] else digits (n div 10) @ [''0123456789'' ! (n mod 10)])"
declare digits.simps [simp del]

fun Sprintf :: "string \<Rightarrow> Operand list \<Rightarrow> string" where
  "Sprintf [] a = []"
| "Sprintf [c] a = [c]"
| "Sprintf (c # v # format) a =
     (if c = CHR ''%'' \<and> v = CHR ''s'' then
        (case a of Str x # a' \<Rightarrow> x @ Sprintf format a' | _ \<Rightarrow> c # Sprintf (v # format) a)
      else if c = CHR ''%'' \<and> v = CHR ''d'' then
        (case a of Num x # a' \<Rightarrow> digits x @ Sprintf format a' | _ \<Rightarrow> c # Sprintf (v # format) a)
      else c # Sprintf (v # format) a)"

definition newError :: "string \<Rightarrow> Operand list \<Rightarrow> Object" where
  "newError format a = Error (Sprintf format a)"

section \<open>Environments (environment.go)\<close>

text \<open>
  The heap: the stores of the environments by address, and the next free address.
  \<open>new_addr\<close> is the allocation of a store or of an object that carries its
  address.
\<close>

record State =
  stores :: "address \<Rightarrow> (string \<rightharpoonup> Object)"
  next_addr :: address

definition new_addr :: "State \<Rightarrow> address \<times> State" where
  "new_addr s = (next_addr s, s\<lparr>next_addr := Suc (next_addr s)\<rparr>)"

definition NewEnvironment :: "State \<Rightarrow> Environment \<times> State" where
  "NewEnvironment s =
     (let (a, s) = new_addr s
      in (Environment a None, s\<lparr>stores := (stores s)(a := Map.empty)\<rparr>))"

definition NewEnclosedEnvironment :: "Environment \<Rightarrow> State \<Rightarrow> Environment \<times> State" where
  "NewEnclosedEnvironment outerEnv s =
     (let (env, s) = NewEnvironment s
      in (Environment (store env) (Some outerEnv), s))"

fun Get :: "State \<Rightarrow> Environment \<Rightarrow> string \<Rightarrow> Object \<times> bool" where
  "Get s (Environment st out) key =
     (case stores s st key of
        Some obj \<Rightarrow> (obj, True)
      | None \<Rightarrow> (case out of Some e \<Rightarrow> Get s e key | None \<Rightarrow> (nil, False)))"

definition Set :: "Environment \<Rightarrow> string \<Rightarrow> Object \<Rightarrow> State \<Rightarrow> State" where
  "Set e key val s = s\<lparr>stores := (stores s)(store e := (stores s (store e))(key \<mapsto> val))\<rparr>"

definition IsKey :: "State \<Rightarrow> Environment \<Rightarrow> string \<Rightarrow> bool" where
  "IsKey s e key =
     (case stores s (store e) key of
        Some _ \<Rightarrow> True
      | None \<Rightarrow> (case outer e of Some out \<Rightarrow> snd (Get s out key) | None \<Rightarrow> False))"


section \<open>Built-in functions (builtins.go)\<close>

text \<open>
  A built-in is a Go function from the argument slice to an object. Here it also
  takes the state and returns it, because \<open>rest\<close> and \<open>push\<close> allocate an array.

  \<open>puts\<close> prints \<open>arg.Inspect()\<close> for each argument. Standard output is outside
  this model; what is kept of \<open>Inspect()\<close> is whether the call returns: on nil it
  panics, and a return value, an array and a hash call \<open>Inspect()\<close> on their parts.
  (The rendering of a function calls \<open>String()\<close> of package \<open>ast\<close>, which is not
  among the sources; it is taken to return.)
\<close>

fun Inspect_returns :: "Object \<Rightarrow> bool" where
  "Inspect_returns nil = False"
| "Inspect_returns (ReturnValue _ v) = Inspect_returns v"
| "Inspect_returns (Array _ elements) = list_all Inspect_returns elements"
| "Inspect_returns (Hash _ pairs) =
     list_all (\<lambda>(_, k, v). Inspect_returns k \<and> Inspect_returns v) pairs"
| "Inspect_returns _ = True"

definition builtin_len :: "Object list \<Rightarrow> State \<Rightarrow> (Object \<times> State) Outcome" where
  "builtin_len args s =
     (if length args \<noteq> 1 then
        Return (newError ''wrong number of arguments. got=%d, want=%d'' [Num (length args), Num 1], s)
      else
        (case args ! 0 of
           Array _ Elements \<Rightarrow> Return (Integer (of_nat (length Elements)), s)
         | String Value \<Rightarrow> Return (Integer (of_nat (length Value)), s)
         | _ \<Rightarrow>
             bind (Type_of (args ! 0)) (\<lambda>t.
             Return (newError ''argument to `len` not supported, got=%s'' [Str t], s))))"

definition builtin_first :: "Object list \<Rightarrow> State \<Rightarrow> (Object \<times> State) Outcome" where
  "builtin_first args s =
     (if length args \<noteq> 1 then
        Return (newError ''wrong number of arguments. got=%d, want=%d'' [Num (length args), Num 1], s)
      else
        bind (Type_of (args ! 0)) (\<lambda>t.
        if t \<noteq> ARRAY_OBJ then
          Return (newError ''argument to `first` must be an ARRAY, got=%s'' [Str t], s)
        else
          (case args ! 0 of
             Array _ Elements \<Rightarrow>
               if length Elements > 0 then Return (Elements ! 0, s) else Return (NULL, s)
           | _ \<Rightarrow> Panic)))"

definition builtin_last :: "Object list \<Rightarrow> State \<Rightarrow> (Object \<times> State) Outcome" where
  "builtin_last args s =
     (if length args \<noteq> 1 then
        Return (newError ''wrong number of arguments. got=%d, want=%d'' [Num (length args), Num 1], s)
      else
        bind (Type_of (args ! 0)) (\<lambda>t.
        if t \<noteq> ARRAY_OBJ then
          Return (newError ''argument to `last` must be an ARRAY, got=%s'' [Str t], s)
        else
          (case args ! 0 of
             Array _ Elements \<Rightarrow>
               (let length = length Elements
                in if length > 0 then Return (Elements ! (length - 1), s) else Return (NULL, s))
           | _ \<Rightarrow> Panic)))"

definition builtin_rest :: "Object list \<Rightarrow> State \<Rightarrow> (Object \<times> State) Outcome" where
  "builtin_rest args s =
     (if length args \<noteq> 1 then
        Return (newError ''wrong number of arguments. got=%d, want=%d'' [Num (length args), Num 1], s)
      else
        bind (Type_of (args ! 0)) (\<lambda>t.
        if t \<noteq> ARRAY_OBJ then
          Return (newError ''argument to `rest` must be an ARRAY, got=%s'' [Str t], s)
        else
          (case args ! 0 of
             Array _ Elements \<Rightarrow>
               if length Elements > 0 then
                 (let newArr = drop 1 Elements; (a, s) = new_addr s
                  in Return (Array a newArr, s))
               else Return (NULL, s)
           | _ \<Rightarrow> Panic)))"

definition builtin_push :: "Object list \<Rightarrow> State \<Rightarrow> (Object \<times> State) Outcome" where
  "builtin_push args s =
     (if length args \<noteq> 2 then
        Return (newError ''argument to push should be 2'' [], s)
      else
        bind (Type_of (args ! 0)) (\<lambda>t.
        if t \<noteq> ARRAY_OBJ then
          Return (newError ''first argument to `push` must be an ARRAY, got=%s'' [Str t], s)
        else
          (case args ! 0 of
             Array _ Elements \<Rightarrow>
               (let newArr = Elements @ [args ! 1]; (a, s) = new_addr s
                in Return (Array a newArr, s))
           | _ \<Rightarrow> Panic)))"

definition builtin_puts :: "Object list \<Rightarrow> State \<Rightarrow> (Object \<times> State) Outcome" where
  "builtin_puts args s = (if list_all Inspect_returns args then Return (NULL, s) else Panic)"

text \<open>
  The table \<open>builtins\<close> maps a name to the pointer of its \<open>Builtin\<close>, whose field
  \<open>Fn\<close> is found by the same name. (A \<open>Builtin\<close> outside the table would have a
  nil \<open>Fn\<close>, and calling it panics.)
\<close>

definition builtins :: "string \<rightharpoonup> Object" where
  "builtins =
     [''len'' \<mapsto> Builtin ''len'', ''first'' \<mapsto> Builtin ''first'', ''last'' \<mapsto> Builtin ''last'',
      ''rest'' \<mapsto> Builtin ''rest'', ''push'' \<mapsto> Builtin ''push'', ''puts'' \<mapsto> Builtin ''puts'']"

definition Builtin_Fn :: "string \<Rightarrow> Object list \<Rightarrow> State \<Rightarrow> (Object \<times> State) Outcome" where
  "Builtin_Fn name =
     (if name = ''len'' then builtin_len
      else if name = ''first'' then builtin_first
      else if name = ''last'' then builtin_last
      else if name = ''rest'' then builtin_rest
      else if name = ''push'' then builtin_push
      else if name = ''puts'' then builtin_puts
      else (\<lambda>args s. Panic))"

section \<open>The evaluator (evaluator.go)\<close>

definition nativeBoolToBooleanObject :: "bool \<Rightarrow> Object" where
  "nativeBoolToBooleanObject input = (if input then TRUE else FALSE)"

text \<open>
  The comparison of two interface values, \<open>left == right\<close>: the same pointer. The
  evaluator reaches it with the singletons, with nil, and with operands that are not
  both integers and not both strings; an integer, a string or an error is then never
  the same object as the other operand, and \<open>Pointer_of\<close> gives them none.
\<close>

datatype Pointer =
    nil_Pointer
  | TRUE_Pointer
  | FALSE_Pointer
  | NULL_Pointer
  | builtins_Pointer string
  | Allocated address

fun Pointer_of :: "Object \<Rightarrow> Pointer option" where
  "Pointer_of nil = Some nil_Pointer"
| "Pointer_of (Boolean b) = Some (if b then TRUE_Pointer else FALSE_Pointer)"
| "Pointer_of Null = Some NULL_Pointer"
| "Pointer_of (ReturnValue a _) = Some (Allocated a)"
| "Pointer_of (Function a _ _ _) = Some (Allocated a)"
| "Pointer_of (Builtin name) = Some (builtins_Pointer name)"
| "Pointer_of (Array a _) = Some (Allocated a)"
| "Pointer_of (Hash a _) = Some (Allocated a)"
| "Pointer_of (Integer _) = None"
| "Pointer_of (String _) = None"
| "Pointer_of (Error _) = None"

definition same_object :: "Object \<Rightarrow> Object \<Rightarrow> bool" where
  "same_object left right =
     (case (Pointer_of left, Pointer_of right) of
        (Some p, Some q) \<Rightarrow> p = q
      | _ \<Rightarrow> False)"

definition isError :: "Object \<Rightarrow> bool" where
  "isError obj = (obj \<noteq> nil \<and> Type obj = Some ERROR_OBJ)"

definition isTruthy :: "Object \<Rightarrow> bool" where
  "isTruthy obj =
     (if same_object obj NULL then False
      else if same_object obj TRUE then True
      else if same_object obj FALSE then False
      else True)"

definition evalBangOperatorExpression :: "Object \<Rightarrow> Object" where
  "evalBangOperatorExpression right =
     (if same_object right TRUE then FALSE
      else if same_object right FALSE then TRUE
      else if same_object right NULL then TRUE
      else FALSE)"

definition evalMinusPrefixOperator :: "Object \<Rightarrow> Object Outcome" where
  "evalMinusPrefixOperator right =
     bind (Type_of right) (\<lambda>t.
     if t \<noteq> INTEGER_OBJ then Return (newError ''unknown operator: -%s'' [Str t])
     else (case right of Integer v \<Rightarrow> Return (Integer (- v)) | _ \<Rightarrow> Panic))"

definition evalPrefixExpression :: "string \<Rightarrow> Object \<Rightarrow> Object Outcome" where
  "evalPrefixExpression operator right =
     (if operator = ''!'' then Return (evalBangOperatorExpression right)
      else if operator = ''-'' then evalMinusPrefixOperator right
      else bind (Type_of right) (\<lambda>t. Return (newError ''unknown operator: %s%s'' [Str operator, Str t])))"

text \<open>
  Division of \<open>int64\<close> values: the quotient truncated towards zero, wrapped to 64
  bits (the most negative value divided by \<open>-1\<close> is itself). The caller excludes a
  zero divisor, on which Go panics.
\<close>

definition int64_quo :: "64 word \<Rightarrow> 64 word \<Rightarrow> 64 word" where
  "int64_quo x y = word_of_int (sint x sdiv sint y)"

definition evalIntegerInfixExpression :: "string \<Rightarrow> Object \<Rightarrow> Object \<Rightarrow> Object Outcome" where
  "evalIntegerInfixExpression operator left right =
     (case (left, right) of
        (Integer leftVal, Integer rightVal) \<Rightarrow>
          if operator = ''+'' then Return (Integer (leftVal + rightVal))
          else if operator = ''-'' then Return (Integer (leftVal - rightVal))
          else if operator = ''*'' then Return (Integer (leftVal * rightVal))
          else if operator = ''/'' then
            (if rightVal = 0 then Panic else Return (Integer (int64_quo leftVal rightVal)))
          else if operator = ''>'' then Return (nativeBoolToBooleanObject (rightVal <s leftVal))
          else if operator = ''<'' then Return (nativeBoolToBooleanObject (leftVal <s rightVal))
          else if operator = ''=='' then Return (nativeBoolToBooleanObject (leftVal = rightVal))
          else if operator = ''!='' then Return (nativeBoolToBooleanObject (leftVal \<noteq> rightVal))
          else Return (newError ''unknown operator: %s %s %s''
                 [Str INTEGER_OBJ, Str operator, Str INTEGER_OBJ])
      | _ \<Rightarrow> Panic)"

definition evalStringInfixExpression :: "string \<Rightarrow> Object \<Rightarrow> Object \<Rightarrow> Object Outcome" where
  "evalStringInfixExpression operator left right =
     (if operator \<noteq> ''+'' then
        bind (Type_of left) (\<lambda>lt. bind (Type_of right) (\<lambda>rt.
        Return (Error (Sprintf ''unknown operator: %s %s %s'' [Str lt, Str operator, Str rt]))))
      else
        (case (left, right) of
           (String leftStr, String rightStr) \<Rightarrow> Return (String (leftStr @ rightStr))
         | _ \<Rightarrow> Panic))"

text \<open>Go's \<open>a() == t && b() == u\<close>: the second operand is evaluated only when the first holds.\<close>

definition both_Type :: "Object \<Rightarrow> ObjectType \<Rightarrow> Object \<Rightarrow> ObjectType \<Rightarrow> bool Outcome" where
  "both_Type left lt right rt =
     bind (Type_of left) (\<lambda>t.
     if t = lt then bind (Type_of right) (\<lambda>t'. Return (t' = rt)) else Return False)"

definition evalInfixExpression :: "string \<Rightarrow> Object \<Rightarrow> Object \<Rightarrow> Object Outcome" where
  "evalInfixExpression operator left right =
     bind (both_Type left INTEGER_OBJ right INTEGER_OBJ) (\<lambda>integers.
     if integers then evalIntegerInfixExpression operator left right
     else
       bind (both_Type left STRING_OBJ right STRING_OBJ) (\<lambda>strings.
       if strings then evalStringInfixExpression operator left right
       else if operator = ''=='' then Return (nativeBoolToBooleanObject (same_object left right))
       else if operator = ''!='' then Return (nativeBoolToBooleanObject (\<not> same_object left right))
       else
         bind (Type_of left) (\<lambda>lt. bind (Type_of right) (\<lambda>rt.
         if lt \<noteq> rt then Return (newError ''type mismatch: %s %s %s'' [Str lt, Str operator, Str rt])
         else Return (newError ''unknown operator: %s %s %s'' [Str lt, Str operator, Str rt])))))"

definition evalIdentifier :: "string \<Rightarrow> Environment \<Rightarrow> State \<Rightarrow> Object" where
  "evalIdentifier name env s =
     (let (obj, ok) = Get s env name in
      if ok then obj
      else
        (case builtins name of
           Some obj \<Rightarrow> obj
         | None \<Rightarrow> newError (''identifier not found: '' @ name) []))"

text \<open>
  The loop of \<open>extendedFunctionEnv\<close> binds parameter \<open>i\<close> to \<open>args[i]\<close>; with fewer
  arguments than parameters the index is out of range and Go panics.
\<close>

fun extendedFunctionEnv_loop ::
  "string list \<Rightarrow> Object list \<Rightarrow> Environment \<Rightarrow> State \<Rightarrow> State Outcome" where
  "extendedFunctionEnv_loop [] args env s = Return s"
| "extendedFunctionEnv_loop (param # Parameters) [] env s = Panic"
| "extendedFunctionEnv_loop (param # Parameters) (arg # args) env s =
     extendedFunctionEnv_loop Parameters args env (Set env param arg s)"

definition extendedFunctionEnv ::
  "string list \<Rightarrow> Environment \<Rightarrow> Object list \<Rightarrow> State \<Rightarrow> (Environment \<times> State) Outcome" where
  "extendedFunctionEnv Parameters fnEnv args s =
     (let (env, s) = NewEnclosedEnvironment fnEnv s
      in bind (extendedFunctionEnv_loop Parameters args env s) (\<lambda>s. Return (env, s)))"

definition unwrapReturnValue :: "Object \<Rightarrow> Object" where
  "unwrapReturnValue obj = (case obj of ReturnValue _ v \<Rightarrow> v | _ \<Rightarrow> obj)"

definition evalArrayIndexExpression :: "Object \<Rightarrow> Object \<Rightarrow> Object Outcome" where
  "evalArrayIndexExpression left index =
     (case (left, index) of
        (Array _ arr, Integer idx) \<Rightarrow>
          (let max = int (length arr) - 1
           in if sint idx < 0 \<or> sint idx > max then Return NULL
              else Return (arr ! nat (sint idx)))
      | _ \<Rightarrow> Panic)"

definition evalHashIndexExpression :: "Object \<Rightarrow> Object \<Rightarrow> Object Outcome" where
  "evalHashIndexExpression left index =
     (case left of
        Hash _ Pairs \<Rightarrow>
          (case Hashable index of
             None \<Rightarrow> bind (Type_of index) (\<lambda>t. Return (newError ''unusable as hash key: %s'' [Str t]))
           | Some key \<Rightarrow>
               (case map_of Pairs key of
                  None \<Rightarrow> Return NULL
                | Some (_, v) \<Rightarrow> Return v))
      | _ \<Rightarrow> Panic)"

definition evalIndexExpression :: "Object \<Rightarrow> Object \<Rightarrow> Object Outcome" where
  "evalIndexExpression left index =
     bind (both_Type left ARRAY_OBJ index INTEGER_OBJ) (\<lambda>array_integer.
     if array_integer then evalArrayIndexExpression left index
     else
       bind (Type_of left) (\<lambda>lt.
       if lt = HASH_OBJ then evalHashIndexExpression left index
       else Return (newError ''index operator not supported: %s'' [Str lt])))"


text \<open>
  \<open>Eval\<close> and the functions it calls are mutually recursive, and a function of the
  interpreted program may call itself for ever. The functions below that call
  \<open>Eval\<close> take the evaluator they call as their first argument \<open>ev\<close>;
  \<open>Eval_switch\<close> is the type switch of \<open>Eval\<close>, and \<open>Eval\<close> passes itself, with
  one unit of fuel less, to its own switch. The loops over statements, arguments and
  pairs carry their local variable (\<open>result\<close>, \<open>args\<close>, \<open>pairs\<close>) as an argument.
\<close>

type_synonym Evaluator = "Node \<Rightarrow> Environment \<Rightarrow> State \<Rightarrow> (Object \<times> State) Outcome"

fun evalProgram ::
  "Evaluator \<Rightarrow> Statement list \<Rightarrow> Environment \<Rightarrow> Object \<Rightarrow> State \<Rightarrow> (Object \<times> State) Outcome"
where
  "evalProgram ev [] env result s = Return (result, s)"
| "evalProgram ev (stmt # statements) env result s =
     bind (ev (Stmt stmt) env s) (\<lambda>(result, s).
     case result of
       ReturnValue _ Value \<Rightarrow> Return (Value, s)
     | Error _ \<Rightarrow> Return (result, s)
     | _ \<Rightarrow> evalProgram ev statements env result s)"

fun evalStatements ::
  "Evaluator \<Rightarrow> Statement list \<Rightarrow> Environment \<Rightarrow> Object \<Rightarrow> State \<Rightarrow> (Object \<times> State) Outcome"
where
  "evalStatements ev [] env result s = Return (result, s)"
| "evalStatements ev (stmt # statements) env result s =
     bind (ev (Stmt stmt) env s) (\<lambda>(result, s).
     if result \<noteq> nil \<and> (Type result = Some RETURN_VALUE_OBJ \<or> Type result = Some ERROR_OBJ)
     then Return (result, s)
     else evalStatements ev statements env result s)"

definition evalIfExpression ::
  "Evaluator \<Rightarrow> Expression \<Rightarrow> BlockStatement \<Rightarrow> BlockStatement option \<Rightarrow> Environment \<Rightarrow> State
     \<Rightarrow> (Object \<times> State) Outcome"
where
  "evalIfExpression ev Condition Consequence Alternative env s =
     bind (ev (Expr Condition) env s) (\<lambda>(condition, s).
     if isError condition then Return (condition, s)
     else if isTruthy condition then ev (Block Consequence) env s
     else
       (case Alternative of
          Some alternative \<Rightarrow> ev (Block alternative) env s
        | None \<Rightarrow> Return (NULL, s)))"

fun evalExpressions ::
  "Evaluator \<Rightarrow> Expression list \<Rightarrow> Environment \<Rightarrow> Object list \<Rightarrow> State
     \<Rightarrow> (Object list \<times> State) Outcome"
where
  "evalExpressions ev [] env args s = Return (args, s)"
| "evalExpressions ev (arg # exps) env args s =
     bind (ev (Expr arg) env s) (\<lambda>(evaluated, s).
     if isError evaluated then Return (args @ [evaluated], s)
     else evalExpressions ev exps env (args @ [evaluated]) s)"

definition applyFunction ::
  "Evaluator \<Rightarrow> Object \<Rightarrow> Object list \<Rightarrow> State \<Rightarrow> (Object \<times> State) Outcome"
where
  "applyFunction ev fn args s =
     (case fn of
        Function _ Parameters Body Env \<Rightarrow>
          bind (extendedFunctionEnv Parameters Env args s) (\<lambda>(extendedEnv, s).
          bind (ev (Block Body) extendedEnv s) (\<lambda>(evaluated, s).
          Return (unwrapReturnValue evaluated, s)))
      | Builtin name \<Rightarrow> Builtin_Fn name args s
      | _ \<Rightarrow> bind (Type_of fn) (\<lambda>t. Return (newError ''not a function: %s'' [Str t], s)))"

fun evalHashLiteral_loop ::
  "Evaluator \<Rightarrow> (Expression \<times> Expression) list \<Rightarrow> Environment \<Rightarrow> address
     \<Rightarrow> (HashKey \<times> Object \<times> Object) list \<Rightarrow> State \<Rightarrow> (Object \<times> State) Outcome"
where
  "evalHashLiteral_loop ev [] env hash pairs s = Return (Hash hash pairs, s)"
| "evalHashLiteral_loop ev ((k, v) # Pairs) env hash pairs s =
     bind (ev (Expr k) env s) (\<lambda>(key, s).
     if isError key then Return (key, s)
     else
       (case Hashable key of
          None \<Rightarrow> bind (Type_of key) (\<lambda>t. Return (newError ''unusable as hash key %s'' [Str t], s))
        | Some hashKey \<Rightarrow>
            bind (ev (Expr v) env s) (\<lambda>(val, s).
            if isError val then Return (val, s)
            else evalHashLiteral_loop ev Pairs env hash (AList.update hashKey (key, val) pairs) s)))"

definition evalHashLiteral ::
  "Evaluator \<Rightarrow> (Expression \<times> Expression) list \<Rightarrow> Environment \<Rightarrow> State \<Rightarrow> (Object \<times> State) Outcome"
where
  "evalHashLiteral ev Pairs env s =
     (let (hash, s) = new_addr s in evalHashLiteral_loop ev Pairs env hash [] s)"

fun Eval_switch :: "Evaluator \<Rightarrow> Evaluator" where
  "Eval_switch ev (Program Statements) env s = evalProgram ev Statements env nil s"
| "Eval_switch ev (Block (BlockStatement Statements)) env s = evalStatements ev Statements env nil s"
| "Eval_switch ev (Stmt (ExpressionStatement Expression)) env s = ev (Expr Expression) env s"
| "Eval_switch ev (Expr (IntegerLiteral Value)) env s = Return (Integer Value, s)"
| "Eval_switch ev (Expr (Boolean_ast Value)) env s = Return (nativeBoolToBooleanObject Value, s)"
| "Eval_switch ev (Expr (PrefixExpression Operator Right_expr)) env s =
     bind (ev (Expr Right_expr) env s) (\<lambda>(right, s).
     if isError right then Return (right, s)
     else bind (evalPrefixExpression Operator right) (\<lambda>obj. Return (obj, s)))"
| "Eval_switch ev (Expr (InfixExpression Operator Left_expr Right_expr)) env s =
     bind (ev (Expr Left_expr) env s) (\<lambda>(left, s).
     if isError left then Return (left, s)
     else
       bind (ev (Expr Right_expr) env s) (\<lambda>(right, s).
       if isError right then Return (right, s)
       else bind (evalInfixExpression Operator left right) (\<lambda>obj. Return (obj, s))))"
| "Eval_switch ev (Expr (IfExpression Condition Consequence Alternative)) env s =
     evalIfExpression ev Condition Consequence Alternative env s"
| "Eval_switch ev (Stmt (ReturnStatement ReturnValue_expr)) env s =
     bind (ev (Expr ReturnValue_expr) env s) (\<lambda>(val, s).
     if isError val then Return (val, s)
     else (let (a, s) = new_addr s in Return (ReturnValue a val, s)))"
| "Eval_switch ev (Stmt (LetStatement Name Value)) env s =
     bind (ev (Expr Value) env s) (\<lambda>(val, s).
     if isError val then Return (val, s)
     else Return (nil, Set env Name val s))"
| "Eval_switch ev (Stmt NilLetStatement) env s = Panic"
| "Eval_switch ev (Expr (Identifier Value)) env s = Return (evalIdentifier Value env s, s)"
| "Eval_switch ev (Expr (FunctionLiteral Parameters Body)) env s =
     (let (a, s) = new_addr s in Return (Function a Parameters Body env, s))"
| "Eval_switch ev (Expr (CallExpression Function_expr Arguments)) env s =
     bind (ev (Expr Function_expr) env s) (\<lambda>(fn, s).
     if isError fn then Return (fn, s)
     else
       bind (evalExpressions ev Arguments env [] s) (\<lambda>(args, s).
       if length args = 1 \<and> isError (args ! 0) then Return (args ! 0, s)
       else applyFunction ev fn args s))"
| "Eval_switch ev (Expr (StringLiteral Value)) env s = Return (String Value, s)"
| "Eval_switch ev (Expr (ArrayLiteral Elements)) env s =
     bind (evalExpressions ev Elements env [] s) (\<lambda>(elements, s).
     if length elements = 1 \<and> isError (elements ! 0) then Return (elements ! 0, s)
     else (let (a, s) = new_addr s in Return (Array a elements, s)))"
| "Eval_switch ev (Expr (IndexExpression Left_expr Index)) env s =
     bind (ev (Expr Left_expr) env s) (\<lambda>(left, s).
     if isError left then Return (left, s)
     else
       bind (ev (Expr Index) env s) (\<lambda>(index, s).
       if isError index then Return (index, s)
       else bind (evalIndexExpression left index) (\<lambda>obj. Return (obj, s))))"
| "Eval_switch ev (Expr (AssignmentExpression Name Value)) env s =
     bind (ev (Expr Value) env s) (\<lambda>(val, s).
     if isError val then Return (val, s)
     else if \<not> IsKey s env Name then Return (newError ''identifier not found `%s`'' [Str Name], s)
     else Return (nil, Set env Name val s))"
| "Eval_switch ev (Expr (HashLiteral Pairs)) env s = evalHashLiteral ev Pairs env s"
| "Eval_switch ev (Expr NilExpression) env s = Return (nil, s)"

primrec Eval :: "nat \<Rightarrow> Evaluator" where
  "Eval 0 = (\<lambda>node env s. OutOfFuel)"
| "Eval (Suc fuel) = Eval_switch (Eval fuel)"



section \<open>Programs of the specification\<close>

text \<open>The state in which nothing has been allocated yet.\<close>

definition empty_State :: State where
  "empty_State = \<lparr>stores = (\<lambda>_. Map.empty), next_addr = 0\<rparr>"

definition nested_return_program :: Node where
  "nested_return_program =
     Program
       [ExpressionStatement
          (IfExpression (InfixExpression ''>'' (IntegerLiteral 10) (IntegerLiteral 1))
             (BlockStatement
                [ExpressionStatement
                   (IfExpression (InfixExpression ''>'' (IntegerLiteral 10) (IntegerLiteral 1))
                      (BlockStatement [ReturnStatement (IntegerLiteral 10)]) None),
                 ReturnStatement (IntegerLiteral 1)])
             None)]"

definition push_program :: Node where
  "push_program =
     Program
       [LetStatement ''a''
          (ArrayLiteral [IntegerLiteral 1, IntegerLiteral 2, IntegerLiteral 3, IntegerLiteral 4]),
        LetStatement ''b'' (CallExpression (Identifier ''push'') [Identifier ''a'', IntegerLiteral 5]),
        ExpressionStatement
          (InfixExpression ''+''
             (CallExpression (Identifier ''len'') [Identifier ''a''])
             (CallExpression (Identifier ''len'') [Identifier ''b'']))]"

definition assign_in_function_program :: Node where
  "assign_in_function_program =
     Program
       [LetStatement ''x'' (IntegerLiteral 1),
        LetStatement ''f''
          (FunctionLiteral []
             (BlockStatement [ExpressionStatement (AssignmentExpression ''x'' (IntegerLiteral 2))])),
        ExpressionStatement (CallExpression (Identifier ''f'') []),
        ExpressionStatement (Identifier ''x'')]"


section \<open>Constants of the object types\<close>

lemmas ObjectType_defs =
  INTEGER_OBJ_def BOOLEAN_OBJ_def NULL_OBJ_def RETURN_VALUE_OBJ_def ERROR_OBJ_def
  FUNCTION_OBJ_def STRING_OBJ_def BUILTIN_OBJ_def ARRAY_OBJ_def HASH_OBJ_def

section \<open>Properties of hash keys\<close>

lemma fnv_New64_Sum64_a: "fnv_New64_Sum64 ''a'' = 0xaf63bd4c8601b7be"
  by (simp add: fnv_New64_Sum64_def offset64_def prime64_def)

lemma spec_fnv1a_64_a: "spec_fnv1a_64 ''a'' = 0xaf63dc4c8601ec8c"
  by (simp add: spec_fnv1a_64_def offset64_def prime64_def)

text \<open>
  C4, as stated, fails: the digest of the string \<open>a\<close> is not its FNV-1a digest.
\<close>

theorem C4_string_digest_not_fnv1a:
  "Hashable (String ''a'') \<noteq> Some (HashKey STRING_OBJ (spec_fnv1a_64 ''a''))"
  by (simp add: String_HashKey_def fnv_New64_Sum64_a spec_fnv1a_64_a)

text \<open>
  C4, amended: the hash key of a String is the pair of \<open>STRING\<close> and the 64-bit FNV-1
  digest (multiply, then xor) of its bytes; the hash key of an Integer is the pair
  of \<open>INTEGER\<close> and its signed value reinterpreted as unsigned (the same 64 bits, so
  the unsigned reading is the signed one modulo \<open>2 ^ 64\<close>); the hash key of a Boolean
  is the pair of \<open>BOOLEAN\<close> and 1 for true, 0 for false.
\<close>

theorem C4_hash_key_values:
  "Hashable (String s) = Some (HashKey ''STRING'' (fnv_New64_Sum64 s))
   \<and> fnv_New64_Sum64 [] = 14695981039346656037
   \<and> fnv_New64_Sum64 (s @ [c]) = (fnv_New64_Sum64 s * 1099511628211) XOR of_char c
   \<and> Hashable (Integer i) = Some (HashKey ''INTEGER'' i)
   \<and> uint i = sint i mod 2 ^ 64
   \<and> Hashable (Boolean True) = Some (HashKey ''BOOLEAN'' 1)
   \<and> Hashable (Boolean False) = Some (HashKey ''BOOLEAN'' 0)"
proof -
  have app: "sum64_Write h (xs @ [c]) = (sum64_Write h xs * prime64) XOR of_char c" for h xs
    by (induction xs arbitrary: h) simp_all
  have "uint i = sint i mod 2 ^ 64"
    using uint_sint [of i] by (simp add: take_bit_eq_mod)
  then show ?thesis
    by (simp add: String_HashKey_def Integer_HashKey_def Boolean_HashKey_def
        fnv_New64_Sum64_def app ObjectType_defs offset64_def prime64_def)
qed

lemma fnv_New64_Sum64_collision:
  "fnv_New64_Sum64 ''bh81cDoC5'' = 0x44f49a7447df3dba"
  "fnv_New64_Sum64 ''V8LQ6670s'' = 0x44f49a7447df3dba"
  by (simp_all add: fnv_New64_Sum64_def offset64_def prime64_def)

text \<open>
  C5, as stated, fails: two different strings have the same hash key.
\<close>

theorem C5_distinct_strings_same_hash_key:
  "Hashable (String ''bh81cDoC5'') = Hashable (String ''V8LQ6670s'')
   \<and> String ''bh81cDoC5'' \<noteq> String ''V8LQ6670s''"
  by (simp add: String_HashKey_def fnv_New64_Sum64_collision)

text \<open>
  C5, amended: for hashable values (Integers, Booleans and Strings), values of the
  same kind that are equal have equal hash keys; equal hash keys imply the same
  kind; and for Integers and Booleans equal hash keys imply equal values. (Two
  different Strings may share a hash key.)
\<close>

theorem C5_hash_key_equality:
  "(Hashable v = Some k \<and> Hashable v' = Some k' \<longrightarrow>
      (v = v' \<longrightarrow> k = k')
    \<and> (k = k' \<longrightarrow> Type v = Type v')
    \<and> (Type v \<noteq> Some STRING_OBJ \<longrightarrow> (k = k' \<longleftrightarrow> v = v')))"
  by (cases v; cases v')
     (auto simp: Integer_HashKey_def Boolean_HashKey_def String_HashKey_def
        ObjectType_defs Let_def split: if_splits)

theorem C5_hash_key_equality_witness:
  "Hashable (Integer 5) = Some (HashKey INTEGER_OBJ 5)
   \<and> Hashable (Boolean True) = Some (HashKey BOOLEAN_OBJ 1)
   \<and> HashKey INTEGER_OBJ 5 \<noteq> HashKey BOOLEAN_OBJ 1
   \<and> Type (Integer 5) \<noteq> Some STRING_OBJ
   \<and> Integer 5 \<noteq> Boolean True"
  using C5_hash_key_equality [of "Integer 5" "HashKey INTEGER_OBJ 5"
      "Boolean True" "HashKey BOOLEAN_OBJ 1"]
  by (simp add: Integer_HashKey_def Boolean_HashKey_def ObjectType_defs)



section \<open>More fuel does not change a result\<close>

lemma bind_ext:
  assumes "bind m f \<noteq> OutOfFuel"
    and "m \<noteq> OutOfFuel \<Longrightarrow> m' = m"
    and "\<And>x. m = Return x \<Longrightarrow> f x \<noteq> OutOfFuel \<Longrightarrow> f' x = f x"
  shows "bind m' f' = bind m f"
  using assms by (cases m) auto

lemma evalProgram_ext:
  assumes ext: "\<And>node env s. ev node env s \<noteq> OutOfFuel \<Longrightarrow> ev' node env s = ev node env s"
  shows "evalProgram ev stmts env r s \<noteq> OutOfFuel \<Longrightarrow>
         evalProgram ev' stmts env r s = evalProgram ev stmts env r s"
proof (induction stmts arbitrary: r s)
  case Nil
  then show ?case by simp
next
  case (Cons stmt stmts)
  show ?case
    unfolding evalProgram.simps
    apply (rule bind_ext)
    using Cons.prems apply simp
     apply (erule ext)
    apply (auto split: Object.splits intro: Cons.IH)
    done
qed

lemma evalStatements_ext:
  assumes ext: "\<And>node env s. ev node env s \<noteq> OutOfFuel \<Longrightarrow> ev' node env s = ev node env s"
  shows "evalStatements ev stmts env r s \<noteq> OutOfFuel \<Longrightarrow>
         evalStatements ev' stmts env r s = evalStatements ev stmts env r s"
proof (induction stmts arbitrary: r s)
  case Nil
  then show ?case by simp
next
  case (Cons stmt stmts)
  show ?case
    unfolding evalStatements.simps
    apply (rule bind_ext)
    using Cons.prems apply simp
     apply (erule ext)
    apply (auto split: if_splits intro: Cons.IH)
    done
qed

lemma evalExpressions_ext:
  assumes ext: "\<And>node env s. ev node env s \<noteq> OutOfFuel \<Longrightarrow> ev' node env s = ev node env s"
  shows "evalExpressions ev exps env args s \<noteq> OutOfFuel \<Longrightarrow>
         evalExpressions ev' exps env args s = evalExpressions ev exps env args s"
proof (induction exps arbitrary: args s)
  case Nil
  then show ?case by simp
next
  case (Cons e exps)
  show ?case
    unfolding evalExpressions.simps
    apply (rule bind_ext)
    using Cons.prems apply simp
     apply (erule ext)
    apply (auto split: if_splits intro: Cons.IH)
    done
qed

lemma evalHashLiteral_loop_ext:
  assumes ext: "\<And>node env s. ev node env s \<noteq> OutOfFuel \<Longrightarrow> ev' node env s = ev node env s"
  shows "evalHashLiteral_loop ev Pairs env h pairs s \<noteq> OutOfFuel \<Longrightarrow>
         evalHashLiteral_loop ev' Pairs env h pairs s = evalHashLiteral_loop ev Pairs env h pairs s"
proof (induction Pairs arbitrary: pairs s)
  case Nil
  then show ?case by simp
next
  case (Cons kv Pairs)
  obtain k v where kv: "kv = (k, v)" by (cases kv)
  show ?case
    unfolding kv evalHashLiteral_loop.simps
    apply (rule bind_ext)
    using Cons.prems apply (simp add: kv)
     apply (erule ext)
    apply (auto split: if_splits option.splits intro!: bind_ext ext Cons.IH)
    done
qed

lemma evalIfExpression_ext:
  assumes ext: "\<And>node env s. ev node env s \<noteq> OutOfFuel \<Longrightarrow> ev' node env s = ev node env s"
  shows "evalIfExpression ev c t e env s \<noteq> OutOfFuel \<Longrightarrow>
         evalIfExpression ev' c t e env s = evalIfExpression ev c t e env s"
  unfolding evalIfExpression_def
  apply (rule bind_ext)
    apply assumption
   apply (erule ext)
  apply (auto split: if_splits option.splits intro!: ext)
  done

lemma applyFunction_ext:
  assumes ext: "\<And>node env s. ev node env s \<noteq> OutOfFuel \<Longrightarrow> ev' node env s = ev node env s"
  shows "applyFunction ev fn args s \<noteq> OutOfFuel \<Longrightarrow>
         applyFunction ev' fn args s = applyFunction ev fn args s"
  unfolding applyFunction_def
  by (cases fn) (auto intro!: bind_ext ext)

lemma Eval_switch_ext:
  assumes ext: "\<And>node env s. ev node env s \<noteq> OutOfFuel \<Longrightarrow> ev' node env s = ev node env s"
  shows "Eval_switch ev node env s \<noteq> OutOfFuel \<Longrightarrow>
         Eval_switch ev' node env s = Eval_switch ev node env s"
proof (cases node)
  case (Program stmts)
  assume "Eval_switch ev node env s \<noteq> OutOfFuel"
  then show ?thesis
    using evalProgram_ext [of ev ev', OF ext] by (simp add: Program)
next
  case (Block b)
  assume "Eval_switch ev node env s \<noteq> OutOfFuel"
  then show ?thesis
    using evalStatements_ext [of ev ev', OF ext] by (cases b) (simp add: Block)
next
  case (Stmt st)
  assume "Eval_switch ev node env s \<noteq> OutOfFuel"
  then show ?thesis
    unfolding Stmt
    by (cases st) (auto intro!: bind_ext ext split: if_splits)
next
  case (Expr e)
  assume "Eval_switch ev node env s \<noteq> OutOfFuel"
  then show ?thesis
    unfolding Expr
    by (cases e)
       (auto intro!: bind_ext ext evalIfExpression_ext [of ev ev', OF ext]
          evalExpressions_ext [of ev ev', OF ext] applyFunction_ext [of ev ev', OF ext]
          evalHashLiteral_loop_ext [of ev ev', OF ext]
          simp: evalHashLiteral_def split: if_splits prod.splits)
qed

lemma Eval_Suc_ext:
  "Eval n node env s \<noteq> OutOfFuel \<Longrightarrow> Eval (Suc n) node env s = Eval n node env s"
proof (induction n arbitrary: node env s)
  case 0
  then show ?case by simp
next
  case (Suc n)
  have "Eval_switch (Eval (Suc n)) node env s = Eval_switch (Eval n) node env s"
    by (rule Eval_switch_ext [of "Eval n" "Eval (Suc n)"]) (use Suc in auto)
  then show ?case by simp
qed

lemma Eval_fuel_mono:
  "Eval n node env s \<noteq> OutOfFuel \<Longrightarrow> n \<le> m \<Longrightarrow> Eval m node env s = Eval n node env s"
proof (induction m)
  case 0
  then show ?case by simp
next
  case (Suc m)
  show ?case
  proof (cases "n = Suc m")
    case True
    then show ?thesis by simp
  next
    case False
    with Suc have eq: "Eval m node env s = Eval n node env s" by simp
    with Suc.prems have "Eval m node env s \<noteq> OutOfFuel" by simp
    from Eval_Suc_ext [OF this] eq show ?thesis by simp
  qed
qed

section \<open>Properties of the evaluator\<close>

lemmas run_simps =
  eval_nat_numeral empty_State_def NewEnvironment_def NewEnclosedEnvironment_def new_addr_def
  evalIfExpression_def isError_def evalInfixExpression_def both_Type_def Type_of_def
  ObjectType_defs evalIntegerInfixExpression_def nativeBoolToBooleanObject_def isTruthy_def
  same_object_def TRUE_def FALSE_def NULL_def evalIdentifier_def Set_def IsKey_def builtins_def
  applyFunction_def Builtin_Fn_def builtin_push_def builtin_len_def newError_def
  extendedFunctionEnv_def unwrapReturnValue_def word_sless_alt

lemma Sprintf_no_verb: "CHR ''%'' \<notin> set format \<Longrightarrow> Sprintf format a = format"
  by (induction format a rule: Sprintf.induct) auto

lemma IsKey_Get: "IsKey s env key = snd (Get s env key)"
  by (cases env) (auto simp: IsKey_def split: option.splits)

text \<open>
  C1, at the array literal \<open>[1, foobar]\<close> and at the call \<open>len(1, foobar)\<close> in a fresh
  environment: \<open>evalExpressions\<close> evaluates left to right and stops at the error,
  but the list it returns holds the earlier value and then the error, not the error
  alone. The caller looks for an error only in a list of length one, so the array
  literal yields an array that holds the error, and the call passes the error to the
  built-in as its second argument.
\<close>

theorem C1_error_joins_earlier_values:
  "(let (env, s) = NewEnvironment empty_State in
      evalExpressions (Eval 1) [IntegerLiteral 1, Identifier ''foobar''] env [] s
        = Return ([Integer 1, Error ''identifier not found: foobar''], s)
      \<and> Eval 2 (Expr (ArrayLiteral [IntegerLiteral 1, Identifier ''foobar''])) env s
        = Return (Array 1 [Integer 1, Error ''identifier not found: foobar''],
                  s\<lparr>next_addr := 2\<rparr>)
      \<and> Eval 3 (Expr (CallExpression (Identifier ''len'') [IntegerLiteral 1, Identifier ''foobar''])) env s
        = Return (Error ''wrong number of arguments. got=2, want=1'', s))"
  by (simp add: run_simps digits.simps)

text \<open>
  C2, as stated, fails: with \<open>x\<close> bound to 1 in the outer scope only, the assignment
  \<open>x = 2\<close> in the inner scope succeeds, leaves the outer binding at 1 and binds \<open>x\<close>
  to 2 in the store of the inner scope. So the program
  \<open>let x = 1; let f = fn() { x = 2; }; f(); x\<close> evaluates to 1.
\<close>

theorem C2_assignment_shadows_outer_binding:
  "(let (env0, s0) = NewEnvironment empty_State;
        s1 = Set env0 ''x'' (Integer 1) s0;
        (env1, s2) = NewEnclosedEnvironment env0 s1
    in stores s2 (store env1) ''x'' = None
     \<and> Get s2 env0 ''x'' = (Integer 1, True)
     \<and> (\<exists>s3. Eval 2 (Expr (AssignmentExpression ''x'' (IntegerLiteral 2))) env1 s2 = Return (nil, s3)
          \<and> Get s3 env0 ''x'' = (Integer 1, True)
          \<and> stores s3 (store env1) ''x'' = Some (Integer 2)))
   \<and> (let (env, s) = NewEnvironment empty_State in
        \<exists>s'. Eval 7 assign_in_function_program env s = Return (Integer 1, s'))"
  by (simp add: run_simps assign_in_function_program_def)

text \<open>
  C2, amended: when the value of an assignment \<open>x = v\<close> evaluates to a value that is
  not an error, and \<open>x\<close> is bound somewhere in the chain of environments (innermost
  scope or any outer one), the assignment succeeds and writes the value into the store
  of the current (innermost) scope and into no other store: a binding of \<open>x\<close> in an
  outer scope is shadowed, not changed. \<open>let\<close> always writes to the current
  scope. If \<open>x\<close> is bound nowhere in the chain, the assignment yields the error
  \<open>identifier not found\<close>, a space, and the name between backquotes.
\<close>

theorem C2_assignment_writes_current_scope:
  "Eval n (Expr value) env s = Return (val, s1) \<and> \<not> isError val \<longrightarrow>
     Eval (Suc n) (Expr (AssignmentExpression x value)) env s =
       (if snd (Get s1 env x)
        then Return (nil, s1\<lparr>stores := (stores s1)(store env := (stores s1 (store env))(x \<mapsto> val))\<rparr>)
        else Return (Error (''identifier not found `'' @ x @ ''`''), s1))
     \<and> Eval (Suc n) (Stmt (LetStatement x value)) env s =
         Return (nil, s1\<lparr>stores := (stores s1)(store env := (stores s1 (store env))(x \<mapsto> val))\<rparr>)"
  by (simp add: IsKey_Get Set_def newError_def)

theorem C2_assignment_writes_current_scope_witness:
  "(let env = Environment 1 (Some (Environment 0 None));
        s = \<lparr>stores = (\<lambda>_. Map.empty)(0 := [''x'' \<mapsto> Integer 1]), next_addr = 2\<rparr>
    in Eval 1 (Expr (IntegerLiteral 2)) env s = Return (Integer 2, s)
     \<and> \<not> isError (Integer 2)
     \<and> snd (Get s env ''x'')
     \<and> Eval 2 (Expr (AssignmentExpression ''x'' (IntegerLiteral 2))) env s =
         Return (nil, s\<lparr>stores := (stores s)(1 := [''x'' \<mapsto> Integer 2])\<rparr>)
     \<and> Eval 2 (Stmt (LetStatement ''x'' (IntegerLiteral 2))) env s =
         Return (nil, s\<lparr>stores := (stores s)(1 := [''x'' \<mapsto> Integer 2])\<rparr>))"
  using C2_assignment_writes_current_scope [of 1 "IntegerLiteral 2" "Environment 1 (Some (Environment 0 None))"
      "\<lparr>stores = (\<lambda>_. Map.empty)(0 := [''x'' \<mapsto> Integer 1]), next_addr = 2\<rparr>"
      "Integer 2"
      "\<lparr>stores = (\<lambda>_. Map.empty)(0 := [''x'' \<mapsto> Integer 1]), next_addr = 2\<rparr>" "''x''"]
  by (simp add: run_simps)

text \<open>
  C6: the loop of \<open>evalProgram\<close>, on a statement that yields \<open>ReturnValue(v)\<close>, stops
  and returns \<open>v\<close> unwrapped, and on an error stops and returns the error; the loop of
  \<open>evalStatements\<close> (a block) returns the return value or the error as it is; on any
  other result both go on with the next statement in the new state. \<open>Eval\<close> runs
  these loops on a program and on a block. With fuel 9 or more, the program
  \<open>if (10 > 1) { if (10 > 1) { return 10; } return 1; }\<close> evaluates to 10 in a fresh
  environment.
\<close>

theorem C6_return_propagation:
  "(ev (Stmt stmt) env s = Return (ReturnValue a v, s1) \<longrightarrow>
      evalProgram ev (stmt # rest) env result s = Return (v, s1)
      \<and> evalStatements ev (stmt # rest) env result s = Return (ReturnValue a v, s1))
   \<and> (ev (Stmt stmt) env s = Return (Error m, s1) \<longrightarrow>
      evalProgram ev (stmt # rest) env result s = Return (Error m, s1)
      \<and> evalStatements ev (stmt # rest) env result s = Return (Error m, s1))
   \<and> (ev (Stmt stmt) env s = Return (r, s1) \<and> Type r \<noteq> Some RETURN_VALUE_OBJ
        \<and> Type r \<noteq> Some ERROR_OBJ \<longrightarrow>
      evalProgram ev (stmt # rest) env result s = evalProgram ev rest env r s1
      \<and> evalStatements ev (stmt # rest) env result s = evalStatements ev rest env r s1)
   \<and> Eval (Suc n) (Program statements) env s = evalProgram (Eval n) statements env nil s
   \<and> Eval (Suc n) (Block (BlockStatement statements)) env s = evalStatements (Eval n) statements env nil s
   \<and> (9 \<le> fuel \<longrightarrow>
        (let (env, s) = NewEnvironment empty_State in
         \<exists>s'. Eval fuel nested_return_program env s = Return (Integer 10, s')))"
proof -
  have run: "let (env, s) = NewEnvironment empty_State in
             \<exists>s'. Eval 9 nested_return_program env s = Return (Integer 10, s')"
    by (simp add: run_simps nested_return_program_def)
  have "9 \<le> fuel \<Longrightarrow> (let (env, s) = NewEnvironment empty_State in
         \<exists>s'. Eval fuel nested_return_program env s = Return (Integer 10, s'))"
    using run Eval_fuel_mono [of 9 nested_return_program _ _ fuel]
    by (auto simp: Let_def split: prod.splits)
  then show ?thesis
    by (cases r) (auto simp: ObjectType_defs)
qed

theorem C6_return_propagation_witness:
  "(let (env, s) = NewEnvironment empty_State in
      Eval 2 (Stmt (ReturnStatement (IntegerLiteral 10))) env s
        = Return (ReturnValue 1 (Integer 10), s\<lparr>next_addr := 2\<rparr>)
    \<and> evalProgram (Eval 2) [ReturnStatement (IntegerLiteral 10), ReturnStatement (IntegerLiteral 1)] env nil s
        = Return (Integer 10, s\<lparr>next_addr := 2\<rparr>)
    \<and> evalStatements (Eval 2) [ReturnStatement (IntegerLiteral 10), ReturnStatement (IntegerLiteral 1)] env nil s
        = Return (ReturnValue 1 (Integer 10), s\<lparr>next_addr := 2\<rparr>)
    \<and> Eval 2 (Stmt (ExpressionStatement (Identifier ''foobar''))) env s
        = Return (Error ''identifier not found: foobar'', s)
    \<and> evalStatements (Eval 2) [ExpressionStatement (Identifier ''foobar''), ReturnStatement (IntegerLiteral 1)] env nil s
        = Return (Error ''identifier not found: foobar'', s)
    \<and> Eval 2 (Stmt (ExpressionStatement (IntegerLiteral 5))) env s = Return (Integer 5, s)
    \<and> evalProgram (Eval 2) [ExpressionStatement (IntegerLiteral 5), ReturnStatement (IntegerLiteral 1)] env nil s
        = evalProgram (Eval 2) [ReturnStatement (IntegerLiteral 1)] env (Integer 5) s
    \<and> (9::nat) \<le> 9
    \<and> (\<exists>s'. Eval 9 nested_return_program env s = Return (Integer 10, s')))"
  using
    C6_return_propagation [of "Eval 2" "ReturnStatement (IntegerLiteral 10)" "Environment 0 None"
      "\<lparr>stores = (\<lambda>_. Map.empty), next_addr = 1\<rparr>" 1 "Integer 10"
      "\<lparr>stores = (\<lambda>_. Map.empty), next_addr = 2\<rparr>" "[ReturnStatement (IntegerLiteral 1)]" nil
      "[]" nil 0 "[]" 9]
    C6_return_propagation [of "Eval 2" "ExpressionStatement (Identifier ''foobar'')" "Environment 0 None"
      "\<lparr>stores = (\<lambda>_. Map.empty), next_addr = 1\<rparr>" 1 "Integer 10"
      "\<lparr>stores = (\<lambda>_. Map.empty), next_addr = 1\<rparr>" "[ReturnStatement (IntegerLiteral 1)]" nil
      "''identifier not found: foobar''" nil 0 "[]" 9]
    C6_return_propagation [of "Eval 2" "ExpressionStatement (IntegerLiteral 5)" "Environment 0 None"
      "\<lparr>stores = (\<lambda>_. Map.empty), next_addr = 1\<rparr>" 1 "Integer 10"
      "\<lparr>stores = (\<lambda>_. Map.empty), next_addr = 1\<rparr>" "[ReturnStatement (IntegerLiteral 1)]" nil
      "[]" "Integer 5" 0 "[]" 9]
  by (simp add: run_simps)

text \<open>
  C7: \<open>push(a, x)\<close> returns an array at the next free address whose elements are
  those of \<open>a\<close> followed by \<open>x\<close>; it is not the object \<open>a\<close> (whose address was
  allocated before); the state changes in its next free address only, so no stored
  binding changes, and \<open>len(a)\<close> is the number of elements of \<open>a\<close> before and after.
  With fuel 9 or more, the program
  \<open>let a = [1, 2, 3, 4]; let b = push(a, 5); len(a) + len(b);\<close> evaluates to 9 in a
  fresh environment.
\<close>

theorem C7_push_allocates_new_array:
  "builtin_push [Array a elements, x] s =
     Return (Array (next_addr s) (elements @ [x]), s\<lparr>next_addr := Suc (next_addr s)\<rparr>)
   \<and> applyFunction ev (Builtin ''push'') [Array a elements, x] s =
     Return (Array (next_addr s) (elements @ [x]), s\<lparr>next_addr := Suc (next_addr s)\<rparr>)
   \<and> (a < next_addr s \<longrightarrow>
        \<not> same_object (Array (next_addr s) (elements @ [x])) (Array a elements))
   \<and> applyFunction ev (Builtin ''len'') [Array a elements] s =
     Return (Integer (of_nat (length elements)), s)
   \<and> applyFunction ev (Builtin ''len'') [Array a elements] (s\<lparr>next_addr := Suc (next_addr s)\<rparr>) =
     Return (Integer (of_nat (length elements)), s\<lparr>next_addr := Suc (next_addr s)\<rparr>)
   \<and> (9 \<le> fuel \<longrightarrow>
        (let (env, s) = NewEnvironment empty_State in
         \<exists>s'. Eval fuel push_program env s = Return (Integer 9, s')))"
proof -
  have run: "let (env, s) = NewEnvironment empty_State in
             \<exists>s'. Eval 9 push_program env s = Return (Integer 9, s')"
    by (simp add: run_simps push_program_def)
  have "9 \<le> fuel \<Longrightarrow> (let (env, s) = NewEnvironment empty_State in
         \<exists>s'. Eval fuel push_program env s = Return (Integer 9, s'))"
    using run Eval_fuel_mono [of 9 push_program _ _ fuel]
    by (auto simp: Let_def split: prod.splits)
  then show ?thesis
    by (simp add: applyFunction_def Builtin_Fn_def builtin_push_def builtin_len_def Type_of_def
        new_addr_def same_object_def ObjectType_defs)
qed

theorem C7_push_allocates_new_array_witness:
  "(0::nat) < 1
   \<and> \<not> same_object (Array 1 ([Integer 1] @ [Integer 5])) (Array 0 [Integer 1])
   \<and> (9::nat) \<le> 9
   \<and> (let (env, s) = NewEnvironment empty_State in
         \<exists>s'. Eval 9 push_program env s = Return (Integer 9, s'))"
  using C7_push_allocates_new_array [of 0 "[Integer 1]" "Integer 5" "\<lparr>stores = (\<lambda>_. Map.empty), next_addr = 1\<rparr>"
      "Eval 0" 9]
  by simp

text \<open>
  C8: an identifier evaluates to \<open>evalIdentifier\<close>, in an unchanged state. \<open>Get\<close>
  answers from the store of the innermost scope when the name is bound there, and
  from the outer environment otherwise. When \<open>Get\<close> finds the name its value is the
  result (so a user binding shadows a built-in); otherwise the entry of the table of
  built-ins (\<open>len\<close>, \<open>first\<close>, \<open>last\<close>, \<open>rest\<close>, \<open>push\<close>, \<open>puts\<close>) is; otherwise
  the result is the error \<open>identifier not found: \<close> followed by the name (a name
  without \<open>%\<close>). In a fresh environment \<open>foobar\<close> yields
  \<open>identifier not found: foobar\<close>.
\<close>

theorem C8_identifier_resolution:
  "Eval (Suc n) (Expr (Identifier name)) env s = Return (evalIdentifier name env s, s)
   \<and> (stores s (store env) name = Some v \<longrightarrow> Get s env name = (v, True))
   \<and> (stores s (store env) name = None \<and> outer env = Some out \<longrightarrow> Get s env name = Get s out name)
   \<and> (stores s (store env) name = None \<and> outer env = None \<longrightarrow> Get s env name = (nil, False))
   \<and> (snd (Get s env name) \<longrightarrow> evalIdentifier name env s = fst (Get s env name))
   \<and> (\<not> snd (Get s env name) \<and> builtins name = Some b \<longrightarrow> evalIdentifier name env s = b)
   \<and> (\<not> snd (Get s env name) \<and> builtins name = None \<and> CHR ''%'' \<notin> set name \<longrightarrow>
        evalIdentifier name env s = Error (''identifier not found: '' @ name))
   \<and> dom builtins = {''len'', ''first'', ''last'', ''rest'', ''push'', ''puts''}
   \<and> (let (env, s) = NewEnvironment empty_State in
        Eval 1 (Expr (Identifier ''foobar'')) env s = Return (Error ''identifier not found: foobar'', s))"
proof -
  have "CHR ''%'' \<notin> set name \<Longrightarrow>
        Sprintf (''identifier not found: '' @ name) [] = ''identifier not found: '' @ name"
    by (rule Sprintf_no_verb) simp
  moreover have "dom builtins = {''len'', ''first'', ''last'', ''rest'', ''push'', ''puts''}"
    by (auto simp: builtins_def split: if_splits)
  moreover have "(let (env, s) = NewEnvironment empty_State in
        Eval 1 (Expr (Identifier ''foobar'')) env s = Return (Error ''identifier not found: foobar'', s))"
    by (simp add: run_simps)
  ultimately show ?thesis
    by (cases env) (auto simp: evalIdentifier_def newError_def split: prod.splits option.splits)
qed

theorem C8_identifier_resolution_witness:
  "(let s = \<lparr>stores = (\<lambda>_. Map.empty)(0 := [''len'' \<mapsto> Integer 1]), next_addr = 2\<rparr>;
        env0 = Environment 0 None;
        env1 = Environment 1 (Some env0)
    in stores s (store env0) ''len'' = Some (Integer 1)
     \<and> Get s env0 ''len'' = (Integer 1, True)
     \<and> stores s (store env1) ''len'' = None \<and> outer env1 = Some env0
     \<and> Get s env1 ''len'' = Get s env0 ''len''
     \<and> snd (Get s env1 ''len'')
     \<and> evalIdentifier ''len'' env1 s = Integer 1
     \<and> Eval 1 (Expr (Identifier ''len'')) env1 s = Return (Integer 1, s)
     \<and> stores s (store env0) ''push'' = None \<and> outer env0 = None
     \<and> Get s env0 ''push'' = (nil, False)
     \<and> \<not> snd (Get s env0 ''push'') \<and> builtins ''push'' = Some (Builtin ''push'')
     \<and> evalIdentifier ''push'' env0 s = Builtin ''push''
     \<and> \<not> snd (Get s env0 ''foobar'') \<and> builtins ''foobar'' = None
     \<and> CHR ''%'' \<notin> set ''foobar''
     \<and> evalIdentifier ''foobar'' env0 s = Error ''identifier not found: foobar'')"
  using
    C8_identifier_resolution [of 0 "''len''" "Environment 0 None"
      "\<lparr>stores = (\<lambda>_. Map.empty)(0 := [''len'' \<mapsto> Integer 1]), next_addr = 2\<rparr>"
      "Integer 1" "Environment 0 None" "Builtin ''push''"]
    C8_identifier_resolution [of 0 "''len''" "Environment 1 (Some (Environment 0 None))"
      "\<lparr>stores = (\<lambda>_. Map.empty)(0 := [''len'' \<mapsto> Integer 1]), next_addr = 2\<rparr>"
      "Integer 1" "Environment 0 None" "Builtin ''push''"]
    C8_identifier_resolution [of 0 "''push''" "Environment 0 None"
      "\<lparr>stores = (\<lambda>_. Map.empty)(0 := [''len'' \<mapsto> Integer 1]), next_addr = 2\<rparr>"
      "Integer 1" "Environment 0 None" "Builtin ''push''"]
    C8_identifier_resolution [of 0 "''foobar''" "Environment 0 None"
      "\<lparr>stores = (\<lambda>_. Map.empty)(0 := [''len'' \<mapsto> Integer 1]), next_addr = 2\<rparr>"
      "Integer 1" "Environment 0 None" "Builtin ''push''"]
  by (simp add: builtins_def)

lemma evalIndexExpression_Array_Integer:
  "evalIndexExpression (Array a elements) (Integer i) =
     (if sint i < 0 \<or> int (length elements) \<le> sint i then Return NULL
      else Return (elements ! nat (sint i)))"
  by (auto simp: evalIndexExpression_def both_Type_def Type_of_def evalArrayIndexExpression_def
      ObjectType_defs)

lemma evalIndexExpression_Array_other:
  "Type index = Some t \<Longrightarrow> t \<noteq> INTEGER_OBJ \<Longrightarrow>
   evalIndexExpression (Array a elements) index = Return (Error ''index operator not supported: ARRAY'')"
  by (simp add: evalIndexExpression_def both_Type_def Type_of_def newError_def ObjectType_defs)

text \<open>
  C9: indexing an array with an integer \<open>i\<close> yields \<open>NULL\<close> when \<open>i\<close> is negative or
  at least the length, and the element at \<open>i\<close> when \<open>0 \<le> i < length\<close>; indexing an
  array with an object of any other type yields the error
  \<open>index operator not supported: ARRAY\<close>. \<open>Eval\<close> of an index expression whose
  operands evaluate to an array and to an index that is not an error is that result.
\<close>

theorem C9_array_index:
  "(sint i < 0 \<or> int (length elements) \<le> sint i \<longrightarrow>
      evalIndexExpression (Array a elements) (Integer i) = Return NULL)
   \<and> (0 \<le> sint i \<and> sint i < int (length elements) \<longrightarrow>
      evalIndexExpression (Array a elements) (Integer i) = Return (elements ! nat (sint i)))
   \<and> (Type index = Some t \<and> t \<noteq> INTEGER_OBJ \<longrightarrow>
      evalIndexExpression (Array a elements) index =
        Return (Error ''index operator not supported: ARRAY''))
   \<and> NULL = Null
   \<and> (Eval n (Expr Left_expr) env s = Return (Array a elements, s1)
        \<and> Eval n (Expr Index) env s1 = Return (index, s2) \<and> \<not> isError index \<longrightarrow>
      Eval (Suc n) (Expr (IndexExpression Left_expr Index)) env s =
        bind (evalIndexExpression (Array a elements) index) (\<lambda>obj. Return (obj, s2)))"
  using evalIndexExpression_Array_other [of index t a elements]
  by (simp add: evalIndexExpression_Array_Integer isError_def ObjectType_defs NULL_def)

theorem C9_array_index_witness:
  "sint (- 1 :: 64 word) < 0
   \<and> evalIndexExpression (Array 1 [Integer 7, Integer 8]) (Integer (- 1)) = Return Null
   \<and> int (length [Integer 7, Integer 8]) \<le> sint (2 :: 64 word)
   \<and> evalIndexExpression (Array 1 [Integer 7, Integer 8]) (Integer 2) = Return Null
   \<and> 0 \<le> sint (1 :: 64 word) \<and> sint (1 :: 64 word) < int (length [Integer 7, Integer 8])
   \<and> evalIndexExpression (Array 1 [Integer 7, Integer 8]) (Integer 1) = Return (Integer 8)
   \<and> Type (Boolean True) = Some BOOLEAN_OBJ \<and> BOOLEAN_OBJ \<noteq> INTEGER_OBJ
   \<and> evalIndexExpression (Array 1 [Integer 7, Integer 8]) (Boolean True) =
        Return (Error ''index operator not supported: ARRAY'')
   \<and> (let env = Environment 0 None; s = \<lparr>stores = (\<lambda>_. Map.empty), next_addr = 1\<rparr> in
        Eval 2 (Expr (ArrayLiteral [IntegerLiteral 7, IntegerLiteral 8])) env s =
          Return (Array 1 [Integer 7, Integer 8], s\<lparr>next_addr := 2\<rparr>)
        \<and> Eval 2 (Expr (IntegerLiteral 5)) env (s\<lparr>next_addr := 2\<rparr>) =
          Return (Integer 5, s\<lparr>next_addr := 2\<rparr>)
        \<and> \<not> isError (Integer 5)
        \<and> Eval 3 (Expr (IndexExpression (ArrayLiteral [IntegerLiteral 7, IntegerLiteral 8])
              (IntegerLiteral 5))) env s = Return (Null, s\<lparr>next_addr := 2\<rparr>))"
  using
    C9_array_index [where i = "- 1" and elements = "[Integer 7, Integer 8]" and a = 1
      and index = "Boolean True" and t = "BOOLEAN_OBJ" and n = 2
      and Left_expr = "ArrayLiteral [IntegerLiteral 7, IntegerLiteral 8]"
      and env = "Environment 0 None"
      and s = "\<lparr>stores = (\<lambda>_. Map.empty), next_addr = 1\<rparr>"
      and ?s1.0 = "\<lparr>stores = (\<lambda>_. Map.empty), next_addr = 2\<rparr>"
      and Index = "IntegerLiteral 5"
      and ?s2.0 = "\<lparr>stores = (\<lambda>_. Map.empty), next_addr = 2\<rparr>"]
    C9_array_index [where i = "2" and elements = "[Integer 7, Integer 8]" and a = 1
      and index = "Integer 5" and t = "BOOLEAN_OBJ" and n = 2
      and Left_expr = "ArrayLiteral [IntegerLiteral 7, IntegerLiteral 8]"
      and env = "Environment 0 None"
      and s = "\<lparr>stores = (\<lambda>_. Map.empty), next_addr = 1\<rparr>"
      and ?s1.0 = "\<lparr>stores = (\<lambda>_. Map.empty), next_addr = 2\<rparr>"
      and Index = "IntegerLiteral 5"
      and ?s2.0 = "\<lparr>stores = (\<lambda>_. Map.empty), next_addr = 2\<rparr>"]
    C9_array_index [where i = "1" and elements = "[Integer 7, Integer 8]" and a = 1
      and index = "Integer 5" and t = "BOOLEAN_OBJ" and n = 2
      and Left_expr = "ArrayLiteral [IntegerLiteral 7, IntegerLiteral 8]"
      and env = "Environment 0 None"
      and s = "\<lparr>stores = (\<lambda>_. Map.empty), next_addr = 1\<rparr>"
      and ?s1.0 = "\<lparr>stores = (\<lambda>_. Map.empty), next_addr = 2\<rparr>"
      and Index = "IntegerLiteral 5"
      and ?s2.0 = "\<lparr>stores = (\<lambda>_. Map.empty), next_addr = 2\<rparr>"]
  by (simp add: run_simps evalIndexExpression_Array_Integer)

text \<open>
  C10: when the value of an assignment evaluates to a value that is not an error and
  the name is bound in the chain, the assignment expression yields nil, exactly as
  the let statement does, and the only effect is the binding written by \<open>Set\<close>; a
  program whose last statement is that assignment returns nil, whatever the value of
  the statements before it.
\<close>

theorem C10_assignment_yields_nil:
  "Eval n (Expr value) env s = Return (val, s1) \<and> \<not> isError val \<and> IsKey s1 env name \<longrightarrow>
     Eval (Suc n) (Expr (AssignmentExpression name value)) env s = Return (nil, Set env name val s1)
     \<and> Eval (Suc n) (Stmt (LetStatement name value)) env s = Return (nil, Set env name val s1)
     \<and> evalProgram (Eval (Suc (Suc n)))
          [ExpressionStatement (AssignmentExpression name value)] env result s =
        Return (nil, Set env name val s1)
     \<and> Eval (Suc (Suc (Suc n)))
          (Program [ExpressionStatement (AssignmentExpression name value)]) env s =
        Return (nil, Set env name val s1)"
  by simp

theorem C10_assignment_yields_nil_witness:
  "(let env = Environment 0 None;
        s = \<lparr>stores = (\<lambda>_. Map.empty)(0 := [''x'' \<mapsto> Integer 1]), next_addr = 1\<rparr>
    in Eval 1 (Expr (IntegerLiteral 2)) env s = Return (Integer 2, s)
     \<and> \<not> isError (Integer 2) \<and> IsKey s env ''x''
     \<and> Eval 2 (Expr (AssignmentExpression ''x'' (IntegerLiteral 2))) env s =
          Return (nil, Set env ''x'' (Integer 2) s)
     \<and> Eval 4 (Program [ExpressionStatement (AssignmentExpression ''x'' (IntegerLiteral 2))]) env s =
          Return (nil, Set env ''x'' (Integer 2) s))"
  using C10_assignment_yields_nil [of 1 "IntegerLiteral 2" "Environment 0 None"
      "\<lparr>stores = (\<lambda>_. Map.empty)(0 := [''x'' \<mapsto> Integer 1]), next_addr = 1\<rparr>"
      "Integer 2"
      "\<lparr>stores = (\<lambda>_. Map.empty)(0 := [''x'' \<mapsto> Integer 1]), next_addr = 1\<rparr>" "''x''" nil]
  by (simp add: eval_nat_numeral isError_def IsKey_def ObjectType_defs)

end
